theory Spec2Isabelle
  imports Complex_Main
begin

section \<open>Data model (Calculator.h, SimpleCalculator.cpp lines 8-44)\<close>

text \<open>
  \<^verbatim>\<open>enum class TokenType\<close> and \<^verbatim>\<open>struct Token\<close>. The payload type \<open>'v\<close> stands for the
  C++ \<^verbatim>\<open>double\<close>; its arithmetic is supplied by a \<open>platform\<close> record below, so that no
  statement depends on how IEEE arithmetic rounds.
\<close>

datatype TokenType = Number | Add | Sub | Mult | Div | Exp | LParanthesis | RParenthesis

record 'v Token =
  type :: TokenType
  val :: 'v

text \<open>
  \<^verbatim>\<open>enum class EvaluationError\<close> without its first member \<^verbatim>\<open>OK\<close>: a function of the source
  that returns \<^verbatim>\<open>OK\<close> and fills its out-parameter is modelled as returning \<open>Inr\<close> of the
  out-parameter, one that returns another member as \<open>Inl\<close> of that member.
\<close>

datatype EvaluationError =
  InvalidCharacters | UnknownOperator | MismatchedParantheses | TooManyInputs | NotEnoughInputs

text \<open>
  What \<^verbatim>\<open>SimpleCalculator::Evaluate\<close> can do besides filling \<^verbatim>\<open>result\<close>: return an error
  code, or call \<^verbatim>\<open>eval_stack.top()\<close> on an empty \<^verbatim>\<open>std::stack\<close> (line 115), which has no
  defined behaviour in C++.
\<close>

datatype fault = Code EvaluationError | TopOfEmptyStack

text \<open>
  The parts of the C and C++ libraries the program calls, over the value type \<open>'v\<close>:
  \<^verbatim>\<open>std::wcstod\<close>, the literal \<^verbatim>\<open>0\<close>, the four \<^verbatim>\<open>double\<close> operators and \<^verbatim>\<open>std::pow\<close>.
  \<open>uninit c\<close> is the \<open>Token\<close> that \<^verbatim>\<open>Token() { }\<close> leaves in the map node created for the
  key \<open>c\<close>: the constructor assigns neither member, so the contents are whatever the
  memory held. The model lets them be any token whose kind is one of the eight
  enumerators, the same at every later read of the entry.
\<close>

record 'v platform =
  wcstod :: "string \<Rightarrow> 'v"
  d_zero :: 'v
  d_add :: "'v \<Rightarrow> 'v \<Rightarrow> 'v"
  d_sub :: "'v \<Rightarrow> 'v \<Rightarrow> 'v"
  d_mul :: "'v \<Rightarrow> 'v \<Rightarrow> 'v"
  d_div :: "'v \<Rightarrow> 'v \<Rightarrow> 'v"
  d_pow :: "'v \<Rightarrow> 'v \<Rightarrow> 'v"
  uninit :: "char \<Rightarrow> 'v Token"

text \<open>
  The character classes of \<^verbatim>\<open><cwctype>\<close> in the "C" locale (the program never calls
  \<^verbatim>\<open>setlocale\<close>). A \<^verbatim>\<open>std::wstring\<close> is modelled as a \<open>string\<close>, its \<^verbatim>\<open>wchar_t\<close> as a
  \<open>char\<close>.
\<close>

definition iswalpha :: "char \<Rightarrow> bool" where
  "iswalpha c = (c \<in> set ''abcdefghijklmnopqrstuvwxyzABCDEFGHIJKLMNOPQRSTUVWXYZ'')"

definition iswdigit :: "char \<Rightarrow> bool" where
  "iswdigit c = (c \<in> set ''0123456789'')"

definition iswspace :: "char \<Rightarrow> bool" where
  "iswspace c = (c \<in> {CHR '' '', CHR 0x09, CHR 0x0A, CHR 0x0B, CHR 0x0C, CHR 0x0D})"

text \<open>
  The global \<^verbatim>\<open>std::map<wchar_t, Token> Operators\<close> as the program initialises it
  (lines 28-36); \<^verbatim>\<open>Token(TokenType t, double val = 0)\<close> gives every entry the value 0.
  The map is not \<^verbatim>\<open>const\<close>: the functions below take its current contents and return
  the new ones.
\<close>

type_synonym 'v optable = "char \<rightharpoonup> 'v Token"

definition operator_token :: "'v platform \<Rightarrow> TokenType \<Rightarrow> 'v Token" where
  "operator_token P t = \<lparr>type = t, val = d_zero P\<rparr>"

definition Operators :: "'v platform \<Rightarrow> 'v optable" where
  "Operators P =
     [CHR ''+'' \<mapsto> operator_token P Add,
      CHR ''-'' \<mapsto> operator_token P Sub,
      CHR ''*'' \<mapsto> operator_token P Mult,
      CHR ''/'' \<mapsto> operator_token P Div,
      CHR ''^'' \<mapsto> operator_token P Exp,
      CHR ''('' \<mapsto> operator_token P LParanthesis,
      CHR '')'' \<mapsto> operator_token P RParenthesis]"

text \<open>
  \<^verbatim>\<open>Operators[curr]\<close>: \<^verbatim>\<open>std::map::operator[]\<close> returns the entry of the key and, when the
  key is absent, first inserts a default-constructed \<open>Token\<close> for it.
\<close>

definition Operators_at :: "'v platform \<Rightarrow> 'v optable \<Rightarrow> char \<Rightarrow> 'v Token \<times> 'v optable" where
  "Operators_at P ops c =
     (case ops c of
        Some t \<Rightarrow> (t, ops)
      | None \<Rightarrow> (uninit P c, ops(c \<mapsto> uninit P c)))"

text \<open>
  \<^verbatim>\<open>std::map<TokenType, int> OperatorPrecendence\<close> (lines 38-44), read with
  \<^verbatim>\<open>operator[]\<close>: a kind without an entry reads as the value-initialised \<^verbatim>\<open>int\<close> 0.
\<close>

fun OperatorPrecendence :: "TokenType \<Rightarrow> int" where
  "OperatorPrecendence Add = 0"
| "OperatorPrecendence Sub = 0"
| "OperatorPrecendence Mult = 1"
| "OperatorPrecendence Div = 1"
| "OperatorPrecendence Exp = 2"
| "OperatorPrecendence _ = 0"

section \<open>Tokenize (lines 119-193)\<close>

text \<open>
  The locals of \<^verbatim>\<open>Tokenize\<close> together with the global table it reads and writes.
\<close>

record 'v scanner =
  operators :: "'v optable"
  tokens :: "'v Token list"
  start_index :: nat
  parsing_number :: bool

definition number_token :: "'v platform \<Rightarrow> string \<Rightarrow> 'v Token" where
  "number_token P s = \<lparr>type = Number, val = wcstod P s\<rparr>"

text \<open>
  \<^verbatim>\<open>text.substr(pos, n)\<close> for \<open>pos \<le> length text\<close>, which holds at its call site (line
  174), where \<open>pos\<close> is an earlier index of the loop. \<^verbatim>\<open>text.substr(start_index)\<close> of line
  188 is \<open>drop (start_index s) text\<close>.
\<close>

definition substr :: "string \<Rightarrow> nat \<Rightarrow> nat \<Rightarrow> string" where
  "substr text pos n = take n (drop pos text)"

text \<open>
  One iteration of the \<^verbatim>\<open>for\<close> loop (lines 135-182) at index \<open>i\<close>: \<open>cur\<close> is
  \<^verbatim>\<open>curr = text[i]\<close> and \<open>rest\<close> holds the characters after it, so that
  \<open>rest \<noteq> [] \<and> iswdigit (hd rest)\<close> is
  \<^verbatim>\<open>i + 1 < text.length() && std::iswdigit(text[i + 1])\<close>. \<open>Inl\<close> is a \<^verbatim>\<open>return\<close> from
  inside the loop, with the table as it is then; \<open>Inr\<close> is the state at the end of the
  iteration.
\<close>

definition Tokenize_step ::
  "'v platform \<Rightarrow> string \<Rightarrow> nat \<Rightarrow> char \<Rightarrow> string \<Rightarrow> 'v scanner
     \<Rightarrow> (EvaluationError \<times> 'v optable) + 'v scanner" where
  "Tokenize_step P text i cur rest s =
     (if iswalpha cur then Inl (InvalidCharacters, operators s)
      else
        let token_is_space = iswspace cur;
            token_is_op = (operators s cur \<noteq> None)
        in
        if \<not> parsing_number s then
          if iswdigit cur \<or> cur = CHR ''.'' then
            Inr (s\<lparr>parsing_number := True, start_index := i\<rparr>)
          else
            let (entry, ops1) = Operators_at P (operators s) cur in
            if type entry = Sub \<and> rest \<noteq> [] \<and> iswdigit (hd rest) then
              Inr (s\<lparr>operators := ops1, parsing_number := True, start_index := i\<rparr>)
            else if token_is_op then
              let (op, ops2) = Operators_at P ops1 cur in
              Inr (s\<lparr>operators := ops2, tokens := tokens s @ [op]\<rparr>)
            else if token_is_space then Inr (s\<lparr>operators := ops1\<rparr>)
            else Inl (UnknownOperator, ops1)
        else
          let number_consumed = (token_is_space \<or> token_is_op) in
          if number_consumed then
            let number = number_token P (substr text (start_index s) (i - start_index s)) in
            if token_is_op then
              let (op, ops1) = Operators_at P (operators s) cur in
              Inr (s\<lparr>operators := ops1, tokens := tokens s @ [number, op],
                     parsing_number := False\<rparr>)
            else Inr (s\<lparr>tokens := tokens s @ [number], parsing_number := False\<rparr>)
          else Inr s)"

text \<open>
  The loop, called with the characters from index \<open>i\<close> on as fourth argument. The empty
  suffix is the code after the loop (lines 185-192). The result carries the table as
  the call leaves it, also when the call fails.
\<close>

fun Tokenize_loop ::
  "'v platform \<Rightarrow> string \<Rightarrow> nat \<Rightarrow> string \<Rightarrow> 'v scanner
     \<Rightarrow> (EvaluationError + 'v Token list) \<times> 'v optable" where
  "Tokenize_loop P text i [] s =
     (if parsing_number s
      then (Inr (tokens s @ [number_token P (drop (start_index s) text)]), operators s)
      else (Inr (tokens s), operators s))"
| "Tokenize_loop P text i (cur # rest) s =
     (case Tokenize_step P text i cur rest s of
        Inl (error, ops) \<Rightarrow> (Inl error, ops)
      | Inr s' \<Rightarrow> Tokenize_loop P text (i + 1) rest s')"

definition Tokenize ::
  "'v platform \<Rightarrow> 'v optable \<Rightarrow> string \<Rightarrow> (EvaluationError + 'v Token list) \<times> 'v optable" where
  "Tokenize P ops text =
     Tokenize_loop P text 0 text
       \<lparr>operators = ops, tokens = [], start_index = 0, parsing_number = False\<rparr>"

section \<open>ConvertToRPN (lines 195-268)\<close>

text \<open>
  The operator stack is a list with its top at the head. \<^verbatim>\<open>popped_op\<close> is read after
  \<^verbatim>\<open>op_stack.pop()\<close> through a reference to the popped element; the model reads the
  element as it was on the stack.

  The \<^verbatim>\<open>while\<close> loop of the right-parenthesis case (lines 214-230).
\<close>

fun pop_to_lparen ::
  "'v Token list \<Rightarrow> 'v Token list \<Rightarrow> EvaluationError + ('v Token list \<times> 'v Token list)" where
  "pop_to_lparen rpn [] = Inl MismatchedParantheses"
| "pop_to_lparen rpn (popped_op # op_stack) =
     (if type popped_op \<noteq> LParanthesis then pop_to_lparen (rpn @ [popped_op]) op_stack
      else Inr (rpn, op_stack))"

text \<open>The \<^verbatim>\<open>default:\<close> case (lines 234-252), for one incoming token \<open>t\<close>.\<close>

definition push_operator ::
  "'v Token \<Rightarrow> 'v Token list \<Rightarrow> 'v Token list \<Rightarrow> 'v Token list \<times> 'v Token list" where
  "push_operator t rpn op_stack =
     (if op_stack \<noteq> [] then
        let is_left_assoc = (type t \<noteq> Exp);
            top_op = hd op_stack
        in
        if type top_op \<noteq> LParanthesis \<and>
           ((is_left_assoc \<and> OperatorPrecendence (type t) \<le> OperatorPrecendence (type top_op))
            \<or> (\<not> is_left_assoc \<and> OperatorPrecendence (type t) < OperatorPrecendence (type top_op)))
        then (rpn @ [top_op], t # tl op_stack)
        else (rpn, t # op_stack)
      else (rpn, t # op_stack))"

text \<open>The final \<^verbatim>\<open>while\<close> loop (lines 256-267).\<close>

fun drain :: "'v Token list \<Rightarrow> 'v Token list \<Rightarrow> EvaluationError + 'v Token list" where
  "drain rpn [] = Inr rpn"
| "drain rpn (popped_op # op_stack) =
     (if type popped_op \<noteq> LParanthesis then drain (rpn @ [popped_op]) op_stack
      else Inl MismatchedParantheses)"

text \<open>The \<^verbatim>\<open>for\<close> loop over the tokens, followed by the drain.\<close>

fun ConvertToRPN_loop ::
  "'v Token list \<Rightarrow> 'v Token list \<Rightarrow> 'v Token list \<Rightarrow> EvaluationError + 'v Token list" where
  "ConvertToRPN_loop [] rpn op_stack = drain rpn op_stack"
| "ConvertToRPN_loop (t # ts) rpn op_stack =
     (case type t of
        Number \<Rightarrow> ConvertToRPN_loop ts (rpn @ [t]) op_stack
      | LParanthesis \<Rightarrow> ConvertToRPN_loop ts rpn (t # op_stack)
      | RParenthesis \<Rightarrow>
          (case pop_to_lparen rpn op_stack of
             Inl e \<Rightarrow> Inl e
           | Inr (rpn', op_stack') \<Rightarrow> ConvertToRPN_loop ts rpn' op_stack')
      | _ \<Rightarrow>
          (case push_operator t rpn op_stack of
             (rpn', op_stack') \<Rightarrow> ConvertToRPN_loop ts rpn' op_stack'))"

definition ConvertToRPN :: "'v Token list \<Rightarrow> EvaluationError + 'v Token list" where
  "ConvertToRPN toks = ConvertToRPN_loop toks [] []"

section \<open>SimpleCalculator::Evaluate (lines 53-117)\<close>

text \<open>The \<^verbatim>\<open>switch\<close> of lines 88-106; \<^verbatim>\<open>arg3\<close> keeps its initial 0 when no case matches.\<close>

fun apply_operator :: "'v platform \<Rightarrow> TokenType \<Rightarrow> 'v \<Rightarrow> 'v \<Rightarrow> 'v" where
  "apply_operator P Add arg2 arg1 = d_add P arg2 arg1"
| "apply_operator P Sub arg2 arg1 = d_sub P arg2 arg1"
| "apply_operator P Mult arg2 arg1 = d_mul P arg2 arg1"
| "apply_operator P Div arg2 arg1 = d_div P arg2 arg1"
| "apply_operator P Exp arg2 arg1 = d_pow P arg2 arg1"
| "apply_operator P _ arg2 arg1 = d_zero P"

text \<open>
  The loop over the postfix sequence (lines 70-109); \<open>eval_stack\<close> has its top at the
  head.
\<close>

fun eval_loop :: "'v platform \<Rightarrow> 'v Token list \<Rightarrow> 'v list \<Rightarrow> EvaluationError + 'v list" where
  "eval_loop P [] eval_stack = Inr eval_stack"
| "eval_loop P (t # ts) eval_stack =
     (if type t = Number then eval_loop P ts (val t # eval_stack)
      else if length eval_stack < 2 then Inl NotEnoughInputs
      else
        let arg1 = hd eval_stack;
            arg2 = hd (tl eval_stack);
            arg3 = apply_operator P (type t) arg2 arg1
        in eval_loop P ts (arg3 # tl (tl eval_stack)))"

text \<open>
  Lines 111-116: the size check and the read of \<^verbatim>\<open>eval_stack.top()\<close>, which the source
  does not guard against an empty stack.
\<close>

definition take_result :: "'v list \<Rightarrow> fault + 'v" where
  "take_result eval_stack =
     (if length eval_stack > 1 then Inl (Code TooManyInputs)
      else case eval_stack of [] \<Rightarrow> Inl TopOfEmptyStack | result # _ \<Rightarrow> Inr result)"

text \<open>Lines 68-116: the evaluation of a postfix sequence.\<close>

definition EvaluateRPN :: "'v platform \<Rightarrow> 'v Token list \<Rightarrow> fault + 'v" where
  "EvaluateRPN P rpn =
     (case eval_loop P rpn [] of
        Inl e \<Rightarrow> Inl (Code e)
      | Inr eval_stack \<Rightarrow> take_result eval_stack)"

text \<open>
  The whole of \<^verbatim>\<open>Evaluate\<close>, from the contents of \<^verbatim>\<open>Operators\<close> before the call to the
  outcome and the contents after it.
\<close>

definition Evaluate :: "'v platform \<Rightarrow> 'v optable \<Rightarrow> string \<Rightarrow> (fault + 'v) \<times> 'v optable" where
  "Evaluate P ops text =
     (case Tokenize P ops text of
        (Inl error, ops') \<Rightarrow> (Inl (Code error), ops')
      | (Inr toks, ops') \<Rightarrow>
          (case ConvertToRPN toks of
             Inl error \<Rightarrow> (Inl (Code error), ops')
           | Inr rpn \<Rightarrow> (EvaluateRPN P rpn, ops')))"

section \<open>Exact arithmetic\<close>

text \<open>
  A platform over the reals, for the inputs on which \<^verbatim>\<open>double\<close> arithmetic is exact (small
  integers): \<open>wcstod_exact\<close> reads what \<^verbatim>\<open>std::wcstod\<close> reads of a string without letters
  (leading white space, a sign, decimal digits with at most one point) and is 0 when no
  digit is found; \<open>pow_exact\<close> is the power with a natural-number exponent, and \<open>powr\<close>
  otherwise.
\<close>

definition decimal :: "string \<Rightarrow> nat" where
  "decimal ds = foldl (\<lambda>n c. 10 * n + (of_char c - 48)) 0 ds"

definition wcstod_exact :: "string \<Rightarrow> real" where
  "wcstod_exact str =
     (let s1 = dropWhile iswspace str;
          negative = (s1 \<noteq> [] \<and> hd s1 = CHR ''-'');
          s2 = (if s1 \<noteq> [] \<and> (hd s1 = CHR ''-'' \<or> hd s1 = CHR ''+'') then tl s1 else s1);
          int_part = takeWhile iswdigit s2;
          s3 = dropWhile iswdigit s2;
          frac_part = (if s3 \<noteq> [] \<and> hd s3 = CHR ''.'' then takeWhile iswdigit (tl s3) else []);
          magnitude = (if int_part = [] \<and> frac_part = [] then 0
                       else real (decimal (int_part @ frac_part)) / 10 ^ length frac_part)
      in if negative then - magnitude else magnitude)"

definition pow_exact :: "real \<Rightarrow> real \<Rightarrow> real" where
  "pow_exact x y = (if 0 \<le> y \<and> y = of_int \<lfloor>y\<rfloor> then x ^ nat \<lfloor>y\<rfloor> else x powr y)"

definition exact :: "(char \<Rightarrow> real Token) \<Rightarrow> real platform" where
  "exact junk =
     \<lparr>wcstod = wcstod_exact, d_zero = 0, d_add = (+), d_sub = (-), d_mul = (*),
      d_div = (/), d_pow = pow_exact, uninit = junk\<rparr>"

text \<open>Memory that reads as zero: kind 0 is \<open>Number\<close>.\<close>

definition zeroed :: "char \<Rightarrow> real Token" where
  "zeroed c = \<lparr>type = Number, val = 0\<rparr>"

section \<open>The textbook converter\<close>

text \<open>
  The shunting-yard step as the specification words it ("while the top of the operator
  stack is not a left-parenthesis AND (...), pop the top into the output; then push
  \<open>t\<close>"), with the comparison repeated while it holds. It is not part of the program; it
  is what the program's single comparison is measured against.
\<close>

fun pop_while :: "'v Token \<Rightarrow> 'v Token list \<Rightarrow> 'v Token list \<Rightarrow> 'v Token list \<times> 'v Token list" where
  "pop_while t rpn [] = (rpn, [])"
| "pop_while t rpn (top_op # op_stack) =
     (if type top_op \<noteq> LParanthesis \<and>
         ((type t \<noteq> Exp \<and> OperatorPrecendence (type t) \<le> OperatorPrecendence (type top_op))
          \<or> (type t = Exp \<and> OperatorPrecendence (type t) < OperatorPrecendence (type top_op)))
      then pop_while t (rpn @ [top_op]) op_stack
      else (rpn, top_op # op_stack))"

fun textbook_loop ::
  "'v Token list \<Rightarrow> 'v Token list \<Rightarrow> 'v Token list \<Rightarrow> EvaluationError + 'v Token list" where
  "textbook_loop [] rpn op_stack = drain rpn op_stack"
| "textbook_loop (t # ts) rpn op_stack =
     (case type t of
        Number \<Rightarrow> textbook_loop ts (rpn @ [t]) op_stack
      | LParanthesis \<Rightarrow> textbook_loop ts rpn (t # op_stack)
      | RParenthesis \<Rightarrow>
          (case pop_to_lparen rpn op_stack of
             Inl e \<Rightarrow> Inl e
           | Inr (rpn', op_stack') \<Rightarrow> textbook_loop ts rpn' op_stack')
      | _ \<Rightarrow>
          (case pop_while t rpn op_stack of
             (rpn', op_stack') \<Rightarrow> textbook_loop ts rpn' (t # op_stack')))"

definition textbook_RPN :: "'v Token list \<Rightarrow> EvaluationError + 'v Token list" where
  "textbook_RPN toks = textbook_loop toks [] []"

section \<open>Predicates used in the statements\<close>

text \<open>
  The characters the scanner accepts outside a number when the table holds \<open>ops\<close>:
  digits, the decimal point, white space and the keys of the table.

  The tables a run can reach from the initial one: every key holds its initial entry, or
  is a key the initial table lacks and holds the default-constructed token.
\<close>

definition known_character :: "'v optable \<Rightarrow> char \<Rightarrow> bool" where
  "known_character ops c = (iswdigit c \<or> c = CHR ''.'' \<or> iswspace c \<or> ops c \<noteq> None)"

definition table_extends :: "'v platform \<Rightarrow> 'v optable \<Rightarrow> bool" where
  "table_extends P ops =
     (\<forall>c. ops c = Operators P c \<or> (Operators P c = None \<and> ops c = Some (uninit P c)))"

section \<open>Evaluation of the definitions\<close>

lemmas char_class_defs = iswalpha_def iswdigit_def iswspace_def

lemmas Tokenize_defs =
  Tokenize_def Tokenize_step_def Operators_def Operators_at_def operator_token_def
  number_token_def substr_def char_class_defs Let_def

lemmas Evaluate_defs =
  Evaluate_def Tokenize_defs ConvertToRPN_def push_operator_def EvaluateRPN_def take_result_def

lemmas exact_defs = exact_def wcstod_exact_def decimal_def pow_exact_def

section \<open>Results on fixed inputs\<close>

text \<open>
  The other examples of the specification, in exact arithmetic: \<^verbatim>\<open>(1+2)*3\<close> is 9,
  \<^verbatim>\<open>10/2-3\<close> is 2, the empty text has no tokens, and two literals without an operator
  are \<^verbatim>\<open>TooManyInputs\<close>.
\<close>

lemma specification_examples:
  "fst (Evaluate (exact junk) (Operators (exact junk)) ''(1+2)*3'') = Inr 9"
  "fst (Evaluate (exact junk) (Operators (exact junk)) ''10/2-3'') = Inr 2"
  "fst (Tokenize P (Operators P) []) = Inr []"
  "EvaluateRPN P [number_token P ''1'', number_token P ''3''] = Inl (Code TooManyInputs)"
  by (simp_all add: Evaluate_defs exact_defs)

text \<open>
  Outside a number the scanner reads every \<^verbatim>\<open>-\<close> that stands before a digit as the sign
  of a literal, also after a closing parenthesis: \<^verbatim>\<open>(1+2)-3\<close> has the literal \<open>-3\<close> and
  no subtraction, and \<^verbatim>\<open>Evaluate\<close> returns \<^verbatim>\<open>TooManyInputs\<close>.
\<close>

lemma minus_after_parenthesis:
  "fst (Tokenize P (Operators P) ''(1+2)-3'') =
     Inr [operator_token P LParanthesis, number_token P ''1'', operator_token P Add,
          number_token P ''2'', operator_token P RParenthesis, number_token P ''-3'']"
  "fst (Evaluate P (Operators P) ''(1+2)-3'') = Inl (Code TooManyInputs)"
  by (simp_all add: Evaluate_defs)

text \<open>
  C9. \<^verbatim>\<open>Evaluate(L"2^3^2")\<close>, started on the initial table, returns \<^verbatim>\<open>OK\<close> with the inner
  power taken first, \<open>2 ^ (3 ^ 2)\<close>: the tokens are \<open>2 ^ 3 ^ 2\<close>, the converter leaves the
  first \<open>^\<close> on the stack when the second arrives (\<open>Exp\<close> is right-associative and 2 is
  not below 2) and emits \<open>2 3 2 ^ ^\<close>. This holds on every platform; in exact arithmetic
  the value is 512.
\<close>

theorem exponentiation_groups_right:
  "fst (Tokenize P (Operators P) ''2^3^2'') =
     Inr [number_token P ''2'', operator_token P Exp, number_token P ''3'',
          operator_token P Exp, number_token P ''2'']
   \<and> ConvertToRPN
        [number_token P ''2'', operator_token P Exp, number_token P ''3'',
         operator_token P Exp, number_token P ''2''] =
      Inr [number_token P ''2'', number_token P ''3'', number_token P ''2'',
           operator_token P Exp, operator_token P Exp]
   \<and> fst (Evaluate P (Operators P) ''2^3^2'') =
       Inr (d_pow P (wcstod P ''2'') (d_pow P (wcstod P ''3'') (wcstod P ''2'')))
   \<and> fst (Evaluate (exact junk) (Operators (exact junk)) ''2^3^2'') = Inr 512"
  by (simp add: Evaluate_defs exact_defs)

text \<open>
  C3. The claim that the final read of the stack top never meets an empty stack fails on
  the code: for a line of one space, and for \<^verbatim>\<open>()\<close>, tokenization and conversion succeed
  with an empty postfix sequence, the size check of line 112 passes, and line 115 calls
  \<^verbatim>\<open>top()\<close> on the empty stack.
\<close>

theorem Evaluate_reads_empty_stack:
  "fst (Tokenize P (Operators P) '' '') = Inr []
   \<and> fst (Tokenize P (Operators P) ''()'') =
       Inr [operator_token P LParanthesis, operator_token P RParenthesis]
   \<and> ConvertToRPN ([] :: 'v Token list) = Inr []
   \<and> ConvertToRPN [operator_token P LParanthesis, operator_token P RParenthesis] = Inr []
   \<and> fst (Evaluate P (Operators P) '' '') = Inl TopOfEmptyStack
   \<and> fst (Evaluate P (Operators P) ''()'') = Inl TopOfEmptyStack"
  by (simp add: Evaluate_defs)

text \<open>
  C4. What lines 111-116 do with the stack the loop leaves: two or more values give
  \<^verbatim>\<open>TooManyInputs\<close>, exactly one value is the result, and no value at all is read with
  \<^verbatim>\<open>top()\<close> all the same. The claim's "otherwise the single remaining value is returned"
  therefore fails for the empty postfix sequence, where nothing remains.
\<close>

theorem EvaluateRPN_outcome:
  "EvaluateRPN P [] = Inl TopOfEmptyStack
   \<and> EvaluateRPN P rpn =
       (case eval_loop P rpn [] of
          Inl e \<Rightarrow> Inl (Code e)
        | Inr [] \<Rightarrow> Inl TopOfEmptyStack
        | Inr [v] \<Rightarrow> Inr v
        | Inr (v # w # below) \<Rightarrow> Inl (Code TooManyInputs))"
  by (simp add: EvaluateRPN_def take_result_def split: sum.splits list.splits)

text \<open>
  C1. The claim of correct values and standard postfix order fails on the code at
  \<^verbatim>\<open>1-2*3+4\<close>. When \<open>+\<close> arrives the stack holds \<open>*\<close> above \<open>-\<close>; the single comparison
  pops \<open>*\<close> only, so the output is \<open>1 2 3 * 4 + -\<close> where the textbook loop gives
  \<open>1 2 3 * - 4 +\<close>, and the value is \<open>1 - (2 * 3 + 4) = - 9\<close> instead of \<open>- 1\<close>.
\<close>

theorem single_comparison_misorders:
  "fst (Tokenize P (Operators P) ''1-2*3+4'') =
     Inr [number_token P ''1'', operator_token P Sub, number_token P ''2'',
          operator_token P Mult, number_token P ''3'', operator_token P Add,
          number_token P ''4'']
   \<and> ConvertToRPN
        [number_token P ''1'', operator_token P Sub, number_token P ''2'',
         operator_token P Mult, number_token P ''3'', operator_token P Add,
         number_token P ''4''] =
      Inr [number_token P ''1'', number_token P ''2'', number_token P ''3'',
           operator_token P Mult, number_token P ''4'', operator_token P Add,
           operator_token P Sub]
   \<and> textbook_RPN
        [number_token P ''1'', operator_token P Sub, number_token P ''2'',
         operator_token P Mult, number_token P ''3'', operator_token P Add,
         number_token P ''4''] =
      Inr [number_token P ''1'', number_token P ''2'', number_token P ''3'',
           operator_token P Mult, operator_token P Sub, number_token P ''4'',
           operator_token P Add]
   \<and> fst (Evaluate P (Operators P) ''1-2*3+4'') =
       Inr (d_sub P (wcstod P ''1'')
              (d_add P (d_mul P (wcstod P ''2'') (wcstod P ''3'')) (wcstod P ''4'')))
   \<and> fst (Evaluate (exact junk) (Operators (exact junk)) ''1-2*3+4'') = Inr (- 9)
   \<and> (1 - 2 * 3 + 4 :: real) = - 1"
  by (simp add: Evaluate_defs exact_defs textbook_RPN_def)

text \<open>
  C10. The claim that two evaluations of one text agree, and that the table is never
  written after its initialisation, fails on the code at \<^verbatim>\<open>1 + 2\<close>. The first call,
  started on the initial table, returns \<^verbatim>\<open>OK\<close> (3 in exact arithmetic); its lookup
  \<^verbatim>\<open>Operators[curr]\<close> for the second space (line 147) inserts an entry for the space. In
  the second call \<^verbatim>\<open>Operators.count\<close> then takes both spaces for operators, the inserted
  token is pushed among the tokens, and the call returns an error, whatever the contents
  of the inserted token.
\<close>

theorem Evaluate_twice_differs:
  "fst (Evaluate P (Operators P) ''1 + 2'') =
     Inr (d_add P (wcstod P ''1'')
            (wcstod P (if type (uninit P CHR '' '') = Sub then '' 2'' else ''2'')))
   \<and> fst (Evaluate (exact junk) (Operators (exact junk)) ''1 + 2'') = Inr 3
   \<and> Operators P CHR '' '' = None
   \<and> snd (Evaluate P (Operators P) ''1 + 2'') = (Operators P)(CHR '' '' \<mapsto> uninit P CHR '' '')
   \<and> fst (Evaluate P (snd (Evaluate P (Operators P) ''1 + 2'')) ''1 + 2'') =
       Inl (Code (case type (uninit P CHR '' '') of
                    Number \<Rightarrow> TooManyInputs
                  | LParanthesis \<Rightarrow> MismatchedParantheses
                  | RParenthesis \<Rightarrow> MismatchedParantheses
                  | _ \<Rightarrow> NotEnoughInputs))"
proof -
  have first: "fst (Evaluate P (Operators P) ''1 + 2'') =
      Inr (d_add P (wcstod P ''1'')
             (wcstod P (if type (uninit P CHR '' '') = Sub then '' 2'' else ''2'')))"
    by (simp add: Evaluate_defs)
  have exactly: "fst (Evaluate (exact junk) (Operators (exact junk)) ''1 + 2'') = Inr 3"
    by (simp add: Evaluate_defs exact_defs)
  have table: "snd (Evaluate P (Operators P) ''1 + 2'') =
      (Operators P)(CHR '' '' \<mapsto> uninit P CHR '' '')"
    by (simp add: Evaluate_defs)
  have second: "fst (Evaluate P ((Operators P)(CHR '' '' \<mapsto> uninit P CHR '' '')) ''1 + 2'') =
      Inl (Code (case type (uninit P CHR '' '') of
                   Number \<Rightarrow> TooManyInputs
                 | LParanthesis \<Rightarrow> MismatchedParantheses
                 | RParenthesis \<Rightarrow> MismatchedParantheses
                 | _ \<Rightarrow> NotEnoughInputs))"
    by (cases "type (uninit P CHR '' '')") (simp_all add: Evaluate_defs)
  have absent: "Operators P CHR '' '' = None"
    by (simp add: Operators_def)
  show ?thesis
    unfolding table using first exactly absent second by simp
qed

section \<open>The operator table during a run\<close>

lemma Operators_at_keeps_keys: "ops c' \<noteq> None \<Longrightarrow> snd (Operators_at P ops c) c' \<noteq> None"
  by (simp add: Operators_at_def split: option.splits)

lemma Operators_at_extends:
  "table_extends P ops \<Longrightarrow> table_extends P (snd (Operators_at P ops c))"
  unfolding table_extends_def Operators_at_def
  by (cases "ops c") (simp_all, metis option.distinct(1))


lemma Tokenize_step_extends:
  assumes "table_extends P (operators s)"
  shows "case Tokenize_step P text i cur rest s of
           Inl (e, ops) \<Rightarrow> table_extends P ops
         | Inr s' \<Rightarrow> table_extends P (operators s')"
  using assms Operators_at_extends[of P "operators s" cur]
    Operators_at_extends[of P "snd (Operators_at P (operators s) cur)" cur]
  by (auto simp: Tokenize_step_def Let_def split: if_splits prod.splits)

lemma Tokenize_loop_extends:
  "table_extends P (operators s) \<Longrightarrow> table_extends P (snd (Tokenize_loop P text i cs s))"
proof (induction cs arbitrary: i s)
  case Nil
  then show ?case by simp
next
  case (Cons cur rest)
  from Tokenize_step_extends[OF Cons.prems, of "text" i cur rest] Cons.IH
  show ?case by (auto split: sum.splits prod.splits)
qed

text \<open>
  Every table that calls of \<^verbatim>\<open>Evaluate\<close> reach from the initial one extends it in the
  sense of \<open>table_extends\<close>.
\<close>

lemma Tokenize_extends:
  "table_extends P ops \<Longrightarrow> table_extends P (snd (Tokenize P ops text))"
  unfolding Tokenize_def by (rule Tokenize_loop_extends) simp

lemma Evaluate_extends:
  "table_extends P ops \<Longrightarrow> table_extends P (snd (Evaluate P ops text))"
  using Tokenize_extends[of P ops "text"]
  by (auto simp: Evaluate_def split: prod.splits sum.splits)


section \<open>The scanner on letters\<close>

lemma Tokenize_step_error:
  "Tokenize_step P text i cur rest s = Inl (e, ops)
   \<Longrightarrow> e = InvalidCharacters \<or> e = UnknownOperator"
  by (auto simp: Tokenize_step_def Let_def split: if_splits prod.splits)

lemma Tokenize_loop_alpha:
  "iswalpha a \<Longrightarrow>
   fst (Tokenize_loop P text i (pre @ a # post) s) = Inl InvalidCharacters \<or>
   fst (Tokenize_loop P text i (pre @ a # post) s) = Inl UnknownOperator"
proof (induction pre arbitrary: i s)
  case Nil
  then show ?case by (simp add: Tokenize_step_def)
next
  case (Cons cur pre)
  show ?case
  proof (cases "Tokenize_step P text i cur (pre @ a # post) s")
    case (Inl err)
    then show ?thesis
      using Tokenize_step_error[of P "text" i cur "pre @ a # post" s "fst err" "snd err"]
      by (auto split: prod.splits)
  next
    case (Inr s')
    then show ?thesis using Cons.IH[OF Cons.prems, of "i + 1" s'] by simp
  qed
qed

lemma Tokenize_step_known:
  assumes "\<not> iswalpha cur" and "known_character (operators s) cur"
  shows "\<exists>s'. Tokenize_step P text i cur rest s = Inr s' \<and>
              (\<forall>c. known_character (operators s) c \<longrightarrow> known_character (operators s') c)"
  using assms Operators_at_keeps_keys[of "operators s" _ P cur]
  by (auto simp: Tokenize_step_def Let_def known_character_def Operators_at_def
           split: if_splits prod.splits option.splits)

lemma Tokenize_loop_known_alpha:
  "iswalpha a \<Longrightarrow> \<forall>c\<in>set pre. known_character (operators s) c \<Longrightarrow>
   fst (Tokenize_loop P text i (pre @ a # post) s) = Inl InvalidCharacters"
proof (induction pre arbitrary: i s)
  case Nil
  then show ?case by (simp add: Tokenize_step_def)
next
  case (Cons cur pre)
  show ?case
  proof (cases "iswalpha cur")
    case True
    then show ?thesis by (simp add: Tokenize_step_def)
  next
    case False
    from Cons.prems(2) have k: "known_character (operators s) cur" by simp
    from Tokenize_step_known[OF False k, of P "text" i "pre @ a # post"]
    obtain s' where s': "Tokenize_step P text i cur (pre @ a # post) s = Inr s'"
      and keeps: "\<forall>c. known_character (operators s) c \<longrightarrow> known_character (operators s') c"
      by blast
    from Cons.prems(2) keeps have "\<forall>c\<in>set pre. known_character (operators s') c" by simp
    from Cons.IH[OF Cons.prems(1) this, of "i + 1"] s' show ?thesis by simp
  qed
qed

section \<open>The converter's loops in closed form\<close>

lemma pop_to_lparen_eq:
  "pop_to_lparen rpn st =
     (if \<exists>p\<in>set st. type p = LParanthesis
      then Inr (rpn @ takeWhile (\<lambda>p. type p \<noteq> LParanthesis) st,
                tl (dropWhile (\<lambda>p. type p \<noteq> LParanthesis) st))
      else Inl MismatchedParantheses)"
  by (induction st arbitrary: rpn) auto

lemma drain_eq:
  "drain rpn st =
     (if \<exists>p\<in>set st. type p = LParanthesis then Inl MismatchedParantheses
      else Inr (rpn @ st))"
  by (induction st arbitrary: rpn) auto

lemma push_operator_cases:
  "push_operator t rpn st = (rpn @ take 0 st, t # drop 0 st) \<or>
   push_operator t rpn st = (rpn @ take 1 st, t # drop 1 st)"
  by (cases st) (simp_all add: push_operator_def Let_def)

section \<open>Results on every input\<close>

text \<open>
  C2. For an incoming token \<open>t\<close> that is neither a number nor a parenthesis, the
  converter goes on with the output and stack that \<open>push_operator\<close> returns, and
  \<open>push_operator\<close> moves at most one operator, the top, from the stack to the output
  before it pushes \<open>t\<close>: whatever lies below the top stays. It does not repeat the
  comparison: when \<open>+\<close> arrives on a stack with \<open>*\<close> above \<open>-\<close>, only \<open>*\<close> is moved, where
  the textbook loop \<open>pop_while\<close> moves both.
\<close>

theorem push_operator_single_comparison:
  "(type t \<notin> {Number, LParanthesis, RParenthesis} \<longrightarrow>
      ConvertToRPN_loop (t # ts) rpn st =
        ConvertToRPN_loop ts (fst (push_operator t rpn st)) (snd (push_operator t rpn st))
      \<and> (\<exists>k\<le>1. push_operator t rpn st = (rpn @ take k st, t # drop k st)))
   \<and> push_operator (operator_token P Add) out [operator_token P Mult, operator_token P Sub] =
       (out @ [operator_token P Mult], [operator_token P Add, operator_token P Sub])
   \<and> pop_while (operator_token P Add) out [operator_token P Mult, operator_token P Sub] =
       (out @ [operator_token P Mult, operator_token P Sub], [])"
proof (intro conjI impI)
  assume t: "type t \<notin> {Number, LParanthesis, RParenthesis}"
  then show "ConvertToRPN_loop (t # ts) rpn st =
      ConvertToRPN_loop ts (fst (push_operator t rpn st)) (snd (push_operator t rpn st))"
    by (cases "type t") (simp_all split: prod.splits)
  from push_operator_cases[of t rpn st]
  show "\<exists>k\<le>1. push_operator t rpn st = (rpn @ take k st, t # drop k st)"
    by (metis le_refl zero_le_one)
next
  show "push_operator (operator_token P Add) out [operator_token P Mult, operator_token P Sub] =
       (out @ [operator_token P Mult], [operator_token P Add, operator_token P Sub])"
    by (simp add: push_operator_def operator_token_def)
  show "pop_while (operator_token P Add) out [operator_token P Mult, operator_token P Sub] =
       (out @ [operator_token P Mult, operator_token P Sub], [])"
    by (simp add: operator_token_def)
qed

theorem push_operator_single_comparison_witness:
  "type (operator_token (exact zeroed) Add) \<notin> {Number, LParanthesis, RParenthesis}
   \<and> ConvertToRPN_loop [operator_token (exact zeroed) Add] []
        [operator_token (exact zeroed) Mult, operator_token (exact zeroed) Sub] =
      Inr [operator_token (exact zeroed) Mult, operator_token (exact zeroed) Add,
           operator_token (exact zeroed) Sub]"
  using push_operator_single_comparison
    [of "operator_token (exact zeroed) Add" "[]" "[]"
        "[operator_token (exact zeroed) Mult, operator_token (exact zeroed) Sub]"
        "exact zeroed" "[]"]
  by (simp add: operator_token_def push_operator_def)



text \<open>
  C6, as the code has it. The claim that a letter anywhere gives \<^verbatim>\<open>InvalidCharacters\<close>
  fails: the scanner returns at the first character it rejects, and in \<^verbatim>\<open>#a\<close> that is
  \<^verbatim>\<open>#\<close>, with \<^verbatim>\<open>UnknownOperator\<close>.
\<close>

theorem Tokenize_letter_counterexample:
  "iswalpha CHR ''a'' \<and> CHR ''a'' \<in> set ''#a''
   \<and> fst (Tokenize (exact zeroed) (Operators (exact zeroed)) ''#a'') = Inl UnknownOperator
   \<and> fst (Tokenize (exact zeroed) (Operators (exact zeroed)) ''#a'') \<noteq> Inl InvalidCharacters"
  by (simp add: Tokenize_defs)

text \<open>
  C6, amended. Tokenizing a text that contains a letter always fails, from any state of
  the table: with \<^verbatim>\<open>InvalidCharacters\<close> or \<^verbatim>\<open>UnknownOperator\<close>, and with
  \<^verbatim>\<open>InvalidCharacters\<close> when every character before the letter is a digit, a decimal
  point, white space or a key of the table.
\<close>

theorem Tokenize_letter_fails:
  assumes "iswalpha a"
  shows "(fst (Tokenize P ops (pre @ a # post)) = Inl InvalidCharacters
          \<or> fst (Tokenize P ops (pre @ a # post)) = Inl UnknownOperator)
       \<and> ((\<forall>c\<in>set pre. known_character ops c) \<longrightarrow>
            fst (Tokenize P ops (pre @ a # post)) = Inl InvalidCharacters)"
proof
  show "fst (Tokenize P ops (pre @ a # post)) = Inl InvalidCharacters
        \<or> fst (Tokenize P ops (pre @ a # post)) = Inl UnknownOperator"
    unfolding Tokenize_def by (rule Tokenize_loop_alpha[OF assms])
  show "(\<forall>c\<in>set pre. known_character ops c) \<longrightarrow>
        fst (Tokenize P ops (pre @ a # post)) = Inl InvalidCharacters"
  proof
    assume "\<forall>c\<in>set pre. known_character ops c"
    then show "fst (Tokenize P ops (pre @ a # post)) = Inl InvalidCharacters"
      unfolding Tokenize_def by (intro Tokenize_loop_known_alpha[OF assms]) simp
  qed
qed

theorem Tokenize_letter_fails_witness:
  "iswalpha CHR ''a''
   \<and> known_character (Operators (exact zeroed)) CHR ''1''
   \<and> known_character (Operators (exact zeroed)) CHR ''+''
   \<and> fst (Tokenize (exact zeroed) (Operators (exact zeroed)) ''1+a2'') = Inl InvalidCharacters"
  using Tokenize_letter_fails[of "CHR ''a''" "exact zeroed" "Operators (exact zeroed)" "''1+''" "''2''"]
  by (simp add: known_character_def char_class_defs Operators_def)

text \<open>
  C7. A right-parenthesis moves the operators above the topmost left-parenthesis of the
  stack to the output, in the order they are popped, and removes that left-parenthesis;
  with no left-parenthesis on the stack the converter returns \<^verbatim>\<open>MismatchedParantheses\<close>.
  After the last token the stack is moved to the output, and the converter returns
  \<^verbatim>\<open>MismatchedParantheses\<close> if the stack holds a left-parenthesis.
  \<^verbatim>\<open>Evaluate(L"(1+2")\<close>, started on the initial table, returns \<^verbatim>\<open>MismatchedParantheses\<close>.
\<close>

theorem parentheses_are_matched:
  "(type t = RParenthesis \<longrightarrow>
      ConvertToRPN_loop (t # ts) rpn st =
        (if \<exists>p\<in>set st. type p = LParanthesis
         then ConvertToRPN_loop ts (rpn @ takeWhile (\<lambda>p. type p \<noteq> LParanthesis) st)
                (tl (dropWhile (\<lambda>p. type p \<noteq> LParanthesis) st))
         else Inl MismatchedParantheses))
   \<and> ConvertToRPN_loop [] rpn st =
       (if \<exists>p\<in>set st. type p = LParanthesis then Inl MismatchedParantheses
        else Inr (rpn @ st))
   \<and> fst (Evaluate P (Operators P) ''(1+2'') = Inl (Code MismatchedParantheses)"
proof (intro conjI impI)
  assume "type t = RParenthesis"
  then show "ConvertToRPN_loop (t # ts) rpn st =
        (if \<exists>p\<in>set st. type p = LParanthesis
         then ConvertToRPN_loop ts (rpn @ takeWhile (\<lambda>p. type p \<noteq> LParanthesis) st)
                (tl (dropWhile (\<lambda>p. type p \<noteq> LParanthesis) st))
         else Inl MismatchedParantheses)"
    by (simp add: pop_to_lparen_eq)
next
  show "ConvertToRPN_loop [] rpn st =
       (if \<exists>p\<in>set st. type p = LParanthesis then Inl MismatchedParantheses
        else Inr (rpn @ st))"
    by (simp add: drain_eq)
next
  show "fst (Evaluate P (Operators P) ''(1+2'') = Inl (Code MismatchedParantheses)"
    by (simp add: Evaluate_defs)
qed

theorem parentheses_are_matched_witness:
  "type (operator_token (exact zeroed) RParenthesis) = RParenthesis
   \<and> ConvertToRPN_loop [operator_token (exact zeroed) RParenthesis]
        [number_token (exact zeroed) ''1'']
        [operator_token (exact zeroed) Add, operator_token (exact zeroed) LParanthesis,
         operator_token (exact zeroed) Mult] =
      Inr [number_token (exact zeroed) ''1'', operator_token (exact zeroed) Add,
           operator_token (exact zeroed) Mult]
   \<and> ConvertToRPN_loop [operator_token (exact zeroed) RParenthesis]
        [number_token (exact zeroed) ''1''] [operator_token (exact zeroed) Add] =
      Inl MismatchedParantheses"
  using
    parentheses_are_matched
      [of "operator_token (exact zeroed) RParenthesis" "[]" "[number_token (exact zeroed) ''1'']"
          "[operator_token (exact zeroed) Add, operator_token (exact zeroed) LParanthesis,
            operator_token (exact zeroed) Mult]" "exact zeroed"]
    parentheses_are_matched
      [of "operator_token (exact zeroed) RParenthesis" "[]" "[number_token (exact zeroed) ''1'']"
          "[operator_token (exact zeroed) Add]" "exact zeroed"]
  by (simp add: operator_token_def number_token_def)



end
